theory Spec2Isabelle
  imports Main "HOL-Library.Sublist"
begin

section \<open>JavaScript and React primitives used by the components\<close>

text \<open>
  A JavaScript string is modelled as a \<^typ>\<open>string\<close>, one \<^typ>\<open>char\<close> per code unit.
  \<^verbatim>\<open>s.startsWith(searchString)\<close> compares the first \<open>length searchString\<close> code units
  of \<open>s\<close> with \<open>searchString\<close> and is false when \<open>s\<close> is shorter; with a string receiver
  and a string argument it never throws.
\<close>

definition startsWith :: "string \<Rightarrow> string \<Rightarrow> bool" where
  "startsWith s searchString = (take (length searchString) s = searchString)"

text \<open>
  The setter returned by \<^verbatim>\<open>useState\<close>, called with a value: the new state is that value,
  whatever the old state was.
\<close>

definition setActiveTab :: "string \<Rightarrow> string \<Rightarrow> string" where
  "setActiveTab v activeTab = v"

section \<open>The tab pages\<close>

datatype component =
    CostEstimator | BillAnalysis | AssistanceFinder | RiskDashboard
  | DenialRiskScorer | ClaimQA | RevenueAnalytics | CodingRecommendations

record tab =
  tab_id :: string
  tab_label :: string
  tab_component :: component

text \<open>
  What a page renders: its heading, its tag line, one button per tab (its key, its label,
  its class name and the identifier its click handler passes to \<^verbatim>\<open>setActiveTab\<close>) and the
  single child component below the tab bar.
\<close>

record tab_button =
  button_key :: string
  button_label :: string
  button_className :: string
  button_onClick :: string

record page_view =
  page_heading :: string
  page_tagline :: string
  page_nav :: "tab_button list"
  page_body :: component

definition tab_className :: "bool \<Rightarrow> string" where
  "tab_className active =
     ''py-4 px-1 border-b-2 font-medium text-sm '' @
     (if active then ''border-primary-500 text-primary-600''
      else ''border-transparent text-gray-500 hover:text-gray-700 hover:border-gray-300'')"

definition render_button :: "string \<Rightarrow> tab \<Rightarrow> tab_button" where
  "render_button activeTab t =
     \<lparr>button_key = tab_id t, button_label = tab_label t,
      button_className = tab_className (activeTab = tab_id t),
      button_onClick = tab_id t\<rparr>"

subsection \<open>PatientPortal\<close>

definition PatientPortal_initial :: string where
  "PatientPortal_initial = ''estimate''"

definition PatientPortal_tabs :: "tab list" where
  "PatientPortal_tabs =
     [\<lparr>tab_id = ''estimate'', tab_label = ''Cost Estimator'', tab_component = CostEstimator\<rparr>,
      \<lparr>tab_id = ''bill'', tab_label = ''Bill Analysis'', tab_component = BillAnalysis\<rparr>,
      \<lparr>tab_id = ''assistance'', tab_label = ''Find Assistance'', tab_component = AssistanceFinder\<rparr>,
      \<lparr>tab_id = ''risk'', tab_label = ''Risk Dashboard'', tab_component = RiskDashboard\<rparr>]"

text \<open>
  \<^verbatim>\<open>tabs.find(t => t.id === activeTab)?.component || CostEstimator\<close>: the component of the
  first tab whose identifier is the selection; every component is a function, hence truthy,
  so the right operand of \<^verbatim>\<open>||\<close> is taken exactly when \<^verbatim>\<open>find\<close> returns
  \<^verbatim>\<open>undefined\<close>.
\<close>

definition PatientPortal_ActiveComponent :: "string \<Rightarrow> component" where
  "PatientPortal_ActiveComponent activeTab =
     (case find (\<lambda>t. tab_id t = activeTab) PatientPortal_tabs of
        None \<Rightarrow> CostEstimator
      | Some t \<Rightarrow> tab_component t)"

definition PatientPortal :: "string \<Rightarrow> page_view" where
  "PatientPortal activeTab =
     \<lparr>page_heading = ''Patient Portal'',
      page_tagline = ''Navigate healthcare costs with AI-powered insights'',
      page_nav = map (render_button activeTab) PatientPortal_tabs,
      page_body = PatientPortal_ActiveComponent activeTab\<rparr>"

text \<open>
  A click on the \<open>i\<close>-th button of the rendered tab bar runs that button's handler; an event
  that targets no button changes nothing.
\<close>

definition PatientPortal_click :: "nat \<Rightarrow> string \<Rightarrow> string" where
  "PatientPortal_click i activeTab =
     (let nav = page_nav (PatientPortal activeTab)
      in if i < length nav then setActiveTab (button_onClick (nav ! i)) activeTab
         else activeTab)"

definition PatientPortal_run :: "nat list \<Rightarrow> string" where
  "PatientPortal_run clicks = foldl (\<lambda>s i. PatientPortal_click i s) PatientPortal_initial clicks"

subsection \<open>ProviderDashboard\<close>

definition ProviderDashboard_initial :: string where
  "ProviderDashboard_initial = ''denial''"

definition ProviderDashboard_tabs :: "tab list" where
  "ProviderDashboard_tabs =
     [\<lparr>tab_id = ''denial'', tab_label = ''Denial Risk Scorer'', tab_component = DenialRiskScorer\<rparr>,
      \<lparr>tab_id = ''qa'', tab_label = ''Claim QA'', tab_component = ClaimQA\<rparr>,
      \<lparr>tab_id = ''analytics'', tab_label = ''Revenue Analytics'', tab_component = RevenueAnalytics\<rparr>,
      \<lparr>tab_id = ''coding'', tab_label = ''Coding Recommendations'',
       tab_component = CodingRecommendations\<rparr>]"

definition ProviderDashboard_ActiveComponent :: "string \<Rightarrow> component" where
  "ProviderDashboard_ActiveComponent activeTab =
     (case find (\<lambda>t. tab_id t = activeTab) ProviderDashboard_tabs of
        None \<Rightarrow> DenialRiskScorer
      | Some t \<Rightarrow> tab_component t)"

definition ProviderDashboard :: "string \<Rightarrow> page_view" where
  "ProviderDashboard activeTab =
     \<lparr>page_heading = ''Provider Dashboard'',
      page_tagline = ''Optimize billing and reduce claim denials'',
      page_nav = map (render_button activeTab) ProviderDashboard_tabs,
      page_body = ProviderDashboard_ActiveComponent activeTab\<rparr>"

definition ProviderDashboard_click :: "nat \<Rightarrow> string \<Rightarrow> string" where
  "ProviderDashboard_click i activeTab =
     (let nav = page_nav (ProviderDashboard activeTab)
      in if i < length nav then setActiveTab (button_onClick (nav ! i)) activeTab
         else activeTab)"

definition ProviderDashboard_run :: "nat list \<Rightarrow> string" where
  "ProviderDashboard_run clicks =
     foldl (\<lambda>s i. ProviderDashboard_click i s) ProviderDashboard_initial clicks"

section \<open>Layout\<close>

text \<open>
  The object returned by \<^verbatim>\<open>useLocation()\<close>. \<^verbatim>\<open>Layout\<close> reads its \<^verbatim>\<open>pathname\<close> only.
\<close>

record location =
  pathname :: string
  search :: string
  hash :: string
  key :: string

record 'a layout_view =
  patient_link_to :: string
  patient_link_className :: string
  provider_link_to :: string
  provider_link_className :: string
  main_children :: 'a

definition link_className :: "bool \<Rightarrow> string" where
  "link_className active =
     ''flex items-center px-4 py-2 rounded-lg transition-colors '' @
     (if active then ''bg-primary-100 text-primary-700''
      else ''text-gray-600 hover:bg-gray-100'')"

definition isPatient :: "location \<Rightarrow> bool" where
  "isPatient loc = startsWith (pathname loc) ''/patient''"

definition isProvider :: "location \<Rightarrow> bool" where
  "isProvider loc = startsWith (pathname loc) ''/provider''"

definition Layout :: "location \<Rightarrow> 'a \<Rightarrow> 'a layout_view" where
  "Layout loc children =
     \<lparr>patient_link_to = ''/patient'',
      patient_link_className = link_className (isPatient loc),
      provider_link_to = ''/provider'',
      provider_link_className = link_className (isProvider loc),
      main_children = children\<rparr>"

text \<open>A navigation link is marked active when it carries the class name of the active branch.\<close>

definition marked_active :: "string \<Rightarrow> bool" where
  "marked_active className = (className = link_className True)"


subsection \<open>Layout as a component under a router\<close>

text \<open>
  \<^verbatim>\<open>Layout\<close> is a function component: it calls the hook \<^verbatim>\<open>useLocation()\<close> and returns its
  JSX. The hook reads the location that the nearest enclosing \<^verbatim>\<open><Router>\<close> provides and
  throws when there is none; it writes nothing. The router context is the state a render
  runs in: \<open>None\<close> outside a router, the current location inside one. A render returns its
  result, or the error it threw, together with the context it leaves behind. \<open>Layout\<close>
  above is the JSX as a function of the location the hook returned.
\<close>

datatype render_error = NotInRouterContext

definition useLocation :: "location option \<Rightarrow> (render_error + location) \<times> location option" where
  "useLocation ctx =
     (case ctx of None \<Rightarrow> (Inl NotInRouterContext, ctx) | Some loc \<Rightarrow> (Inr loc, ctx))"

definition Layout_component ::
  "location option \<Rightarrow> 'a \<Rightarrow> (render_error + 'a layout_view) \<times> location option" where
  "Layout_component ctx children =
     (case useLocation ctx of
        (Inl e, ctx') \<Rightarrow> (Inl e, ctx')
      | (Inr loc, ctx') \<Rightarrow> (Inr (Layout loc children), ctx'))"


section \<open>App: the route table\<close>

datatype element = Navigate string | PatientPortalPage | ProviderDashboardPage

record route =
  route_path :: string
  route_element :: element

definition App_routes :: "route list" where
  "App_routes =
     [\<lparr>route_path = ''/'', route_element = Navigate ''/patient''\<rparr>,
      \<lparr>route_path = ''/patient/*'', route_element = PatientPortalPage\<rparr>,
      \<lparr>route_path = ''/provider/*'', route_element = ProviderDashboardPage\<rparr>]"

subsection \<open>Percent-decoding of the pathname\<close>

text \<open>
  \<^verbatim>\<open><Routes>\<close> belongs to the routing library (react-router, version 6 interface), which is
  not part of the repository; what it does with a pathname is modelled here from the
  library and from the ECMAScript functions it calls. Before matching, the library
  percent-decodes the pathname (\<^verbatim>\<open>decodePath\<close>): the pathname is split at its slashes,
  each segment goes through \<^verbatim>\<open>decodeURIComponent\<close>, a slash that a segment decodes to is
  written back as \<^verbatim>\<open>%2F\<close>, and the segments are joined with slashes again; when
  \<^verbatim>\<open>decodeURIComponent\<close> throws on some segment the pathname is used as it is.

  A decoded string is a list of UTF-16 code units, each a natural number.
\<close>

definition code_units :: "string \<Rightarrow> nat list" where
  "code_units s = map of_char s"

definition hex_digit :: "char \<Rightarrow> nat option" where
  "hex_digit c =
     (let n = (of_char c :: nat)
      in if 48 \<le> n \<and> n \<le> 57 then Some (n - 48)
         else if 65 \<le> n \<and> n \<le> 70 then Some (n - 55)
         else if 97 \<le> n \<and> n \<le> 102 then Some (n - 87)
         else None)"

text \<open>
  \<^verbatim>\<open>decodeURIComponent\<close> throws a \<^verbatim>\<open>URIError\<close> (here \<open>None\<close>) when a \<^verbatim>\<open>%\<close> is not
  followed by two hexadecimal digits, and when the escaped octets are not the UTF-8 encoding
  of a code point. It is written in two passes, which fail on the same strings as the one
  pass of the standard: \<open>escapes\<close> reads the string as code units that stand for
  themselves and escaped octets, \<open>utf8\<close> turns the octets into code units.
\<close>

datatype token = Lit nat | Esc nat

fun escapes :: "string \<Rightarrow> token list option" where
  "escapes [] = Some []"
| "escapes (c # cs) =
     (if c = CHR ''%'' then
        (case cs of
           h1 # h2 # rest \<Rightarrow>
             (case (hex_digit h1, hex_digit h2) of
                (Some a, Some b) \<Rightarrow> map_option (Cons (Esc (16 * a + b))) (escapes rest)
              | _ \<Rightarrow> None)
         | _ \<Rightarrow> None)
      else map_option (Cons (Lit (of_char c))) (escapes cs))"

definition continuation :: "nat \<Rightarrow> bool" where
  "continuation b = (128 \<le> b \<and> b \<le> 191)"

text \<open>
  An octet below 128 is a code unit. An octet with two, three or four leading one bits
  starts a sequence of that many escaped octets, the others being continuation octets
  (\<^verbatim>\<open>10xxxxxx\<close>); \<open>lead\<close> gives the number of continuation octets to come, the bits of
  the code point that the first octet holds and the least code point a sequence of this
  length may encode. Every other octet is an error.
\<close>

definition lead :: "nat \<Rightarrow> (nat \<times> nat \<times> nat) option" where
  "lead b =
     (if 192 \<le> b \<and> b \<le> 223 then Some (1, b - 192, 128)
      else if 224 \<le> b \<and> b \<le> 239 then Some (2, b - 224, 2048)
      else if 240 \<le> b \<and> b \<le> 247 then Some (3, b - 240, 65536)
      else None)"

text \<open>
  The octets have to be the shortest encoding of a code point that is no surrogate and is at
  most \<^verbatim>\<open>0x10FFFF\<close>. A code point from \<^verbatim>\<open>0x10000\<close> on becomes two code units.
\<close>

definition valid_code_point :: "nat \<Rightarrow> nat \<Rightarrow> bool" where
  "valid_code_point lo cp =
     (lo \<le> cp \<and> cp \<le> 1114111 \<and> \<not> (55296 \<le> cp \<and> cp \<le> 57343))"

definition utf16 :: "nat \<Rightarrow> nat list" where
  "utf16 cp =
     (if cp < 65536 then [cp]
      else [(cp - 65536) div 1024 + 55296, (cp - 65536) mod 1024 + 56320])"

text \<open>
  \<open>utf8 need cp lo ts\<close> decodes the tokens \<open>ts\<close> when \<open>need\<close> continuation octets of the
  current sequence are still to come, \<open>cp\<close> being the bits of its code point read so far.
\<close>

fun utf8 :: "nat \<Rightarrow> nat \<Rightarrow> nat \<Rightarrow> token list \<Rightarrow> nat list option" where
  "utf8 need cp lo [] = (if need = 0 then Some [] else None)"
| "utf8 need cp lo (Lit u # ts) =
     (if need = 0 then map_option (Cons u) (utf8 0 0 0 ts) else None)"
| "utf8 need cp lo (Esc b # ts) =
     (if need = 0 then
        (if b < 128 then map_option (Cons b) (utf8 0 0 0 ts)
         else (case lead b of None \<Rightarrow> None | Some (n, c, l) \<Rightarrow> utf8 n c l ts))
      else if continuation b then
        (let cp' = cp * 64 + (b - 128)
         in if need = 1 then
              (if valid_code_point lo cp' then map_option (append (utf16 cp')) (utf8 0 0 0 ts)
               else None)
            else utf8 (need - 1) cp' lo ts)
      else None)"

definition decodeURIComponent :: "string \<Rightarrow> nat list option" where
  "decodeURIComponent s = (case escapes s of None \<Rightarrow> None | Some ts \<Rightarrow> utf8 0 0 0 ts)"

text \<open>\<^verbatim>\<open>s.split("/")\<close>: the segments between the slashes; the empty string has one, empty, segment.\<close>

fun split_slash :: "string \<Rightarrow> string list" where
  "split_slash [] = [[]]"
| "split_slash (c # cs) =
     (if c = CHR ''/'' then [] # split_slash cs
      else (case split_slash cs of s # ss \<Rightarrow> (c # s) # ss | [] \<Rightarrow> [[c]]))"

text \<open>\<^verbatim>\<open>segments.join("/")\<close>.\<close>

definition join_slash :: "nat list list \<Rightarrow> nat list" where
  "join_slash segments =
     (case segments of [] \<Rightarrow> [] | s # ss \<Rightarrow> s @ concat (map (\<lambda>t. 47 # t) ss))"

text \<open>\<^verbatim>\<open>segment.replace(/\//g, "%2F")\<close>: every slash (47) becomes the three code units of \<^verbatim>\<open>%2F\<close>.\<close>

definition escape_slashes :: "nat list \<Rightarrow> nat list" where
  "escape_slashes segment = concat (map (\<lambda>u. if u = 47 then [37, 50, 70] else [u]) segment)"

definition decodePath :: "string \<Rightarrow> nat list" where
  "decodePath path =
     (case those (map decodeURIComponent (split_slash path)) of
        None \<Rightarrow> code_units path
      | Some segments \<Rightarrow> join_slash (map escape_slashes segments))"

subsection \<open>Path matching\<close>

text \<open>
  The library turns a route path without \<^verbatim>\<open>:param\<close> segments into a regular expression
  that ignores case: the trailing \<^verbatim>\<open>*\<close> and the trailing slashes of the route path are
  dropped and its leading slashes become one, which gives the text the decoded pathname has
  to begin with. For a route path ending in \<^verbatim>\<open>*\<close> the expression goes on with
  \<^verbatim>\<open>(?:\/(.+)|\/*)$\<close>, or with \<^verbatim>\<open>(.*)$\<close> when the route path is \<^verbatim>\<open>*\<close> or \<^verbatim>\<open>/*\<close>;
  for any other route path it goes on with \<^verbatim>\<open>\/*$\<close>. The dot of a regular expression
  matches every code unit but the line terminators (line feed, carriage return,
  \<^verbatim>\<open>U+2028\<close>, \<^verbatim>\<open>U+2029\<close>), and \<^verbatim>\<open>$\<close> matches at the end of the string only.

  Ignoring case identifies the letters \<^verbatim>\<open>A\<close> to \<^verbatim>\<open>Z\<close> (65 to 90) with the letters 32
  higher; no code unit from 128 on is identified with a letter of a route path.
\<close>

definition toLowerASCII :: "nat \<Rightarrow> nat" where
  "toLowerASCII u = (if 65 \<le> u \<and> u \<le> 90 then u + 32 else u)"

definition is_slash :: "nat \<Rightarrow> bool" where
  "is_slash u = (u = 47)"

definition line_terminator :: "nat \<Rightarrow> bool" where
  "line_terminator u = (u = 10 \<or> u = 13 \<or> u = 8232 \<or> u = 8233)"

definition dot :: "nat \<Rightarrow> bool" where
  "dot u = (\<not> line_terminator u)"

definition ends_with_star :: "string \<Rightarrow> bool" where
  "ends_with_star pattern = (pattern \<noteq> [] \<and> last pattern = CHR ''*'')"

definition pattern_literal :: "string \<Rightarrow> string" where
  "pattern_literal pattern =
     (let p1 = (if ends_with_star pattern then butlast pattern else pattern);
          p2 = rev (dropWhile (\<lambda>c. c = CHR ''/'') (rev p1))
      in CHR ''/'' # dropWhile (\<lambda>c. c = CHR ''/'') p2)"

definition matchPath :: "string \<Rightarrow> nat list \<Rightarrow> bool" where
  "matchPath pattern decoded =
     (let lit = code_units (pattern_literal pattern);
          rest = drop (length lit) decoded
      in map toLowerASCII (take (length lit) decoded) = map toLowerASCII lit \<and>
         (if ends_with_star pattern then
            (if pattern = ''*'' \<or> pattern = ''/*'' then list_all dot rest
             else (case rest of [] \<Rightarrow> False | u # us \<Rightarrow> is_slash u \<and> us \<noteq> [] \<and> list_all dot us)
                  \<or> list_all is_slash rest)
          else list_all is_slash rest))"

text \<open>
  \<^verbatim>\<open>matchRoutes\<close> takes \<^verbatim>\<open>/\<close> for an empty pathname, decodes the pathname and tries the
  routes on the decoded pathname. The library ranks the routes before it tries them; no
  pathname matches two routes of \<open>App_routes\<close> (lemma \<open>App_routes_exclusive\<close> below), so the
  first match in the order of the source is the match the library takes.
\<close>

definition matchRoutes :: "route list \<Rightarrow> string \<Rightarrow> route option" where
  "matchRoutes routes path =
     (let decoded = decodePath (if path = [] then ''/'' else path)
      in find (\<lambda>r. matchPath (route_path r) decoded) routes)"

text \<open>
  What the router ends up showing for a path: nothing when no route matches, the page of
  the matched route, or, for \<^verbatim>\<open><Navigate to=... replace />\<close>, whatever the target path
  shows. The number of redirects followed is bounded by the fuel.
\<close>

datatype outcome = NoMatch string | Rendered string element | OutOfFuel

fun App :: "nat \<Rightarrow> string \<Rightarrow> outcome" where
  "App fuel path =
     (case matchRoutes App_routes path of
        None \<Rightarrow> NoMatch path
      | Some r \<Rightarrow>
          (case route_element r of
             Navigate to \<Rightarrow> (case fuel of 0 \<Rightarrow> OutOfFuel | Suc n \<Rightarrow> App n to)
           | PatientPortalPage \<Rightarrow> Rendered path PatientPortalPage
           | ProviderDashboardPage \<Rightarrow> Rendered path ProviderDashboardPage))"

text \<open>A path lies under a section when it is the section's path or continues it after a slash.\<close>

definition under_section :: "string \<Rightarrow> string \<Rightarrow> bool" where
  "under_section section path = (path = section \<or> prefix (section @ ''/'') path)"

section \<open>Properties of the tab pages\<close>

lemma find_tab_in:
  "distinct (map tab_id tabs) \<Longrightarrow> t \<in> set tabs \<Longrightarrow> find (\<lambda>u. tab_id u = tab_id t) tabs = Some t"
  by (induction tabs) (auto simp: rev_image_eqI)

lemma find_tab_out:
  "T \<notin> set (map tab_id tabs) \<Longrightarrow> find (\<lambda>u. tab_id u = T) tabs = None"
  by (induction tabs) auto

lemma PatientPortal_ids_distinct: "distinct (map tab_id PatientPortal_tabs)"
  by (simp add: PatientPortal_tabs_def)

lemma ProviderDashboard_ids_distinct: "distinct (map tab_id ProviderDashboard_tabs)"
  by (simp add: ProviderDashboard_tabs_def)

lemma PatientPortal_components_distinct: "distinct (map tab_component PatientPortal_tabs)"
  by (simp add: PatientPortal_tabs_def)

lemma ProviderDashboard_components_distinct: "distinct (map tab_component ProviderDashboard_tabs)"
  by (simp add: ProviderDashboard_tabs_def)

lemma distinct_map_other:
  assumes "distinct (map f xs)" and "t \<in> set xs" and "u \<in> set xs" and "u \<noteq> t"
  shows "f u \<noteq> f t"
  using assms by (meson distinct_map inj_onD)

lemma PatientPortal_ActiveComponent_tab:
  assumes "t \<in> set PatientPortal_tabs"
  shows "PatientPortal_ActiveComponent (tab_id t) = tab_component t"
  by (simp add: PatientPortal_ActiveComponent_def find_tab_in [OF PatientPortal_ids_distinct assms])

lemma ProviderDashboard_ActiveComponent_tab:
  assumes "t \<in> set ProviderDashboard_tabs"
  shows "ProviderDashboard_ActiveComponent (tab_id t) = tab_component t"
  by (simp add: ProviderDashboard_ActiveComponent_def
      find_tab_in [OF ProviderDashboard_ids_distinct assms])

lemma PatientPortal_ActiveComponent_unknown:
  "S \<notin> set (map tab_id PatientPortal_tabs) \<Longrightarrow> PatientPortal_ActiveComponent S = CostEstimator"
  by (simp add: PatientPortal_ActiveComponent_def find_tab_out)

lemma ProviderDashboard_ActiveComponent_unknown:
  "S \<notin> set (map tab_id ProviderDashboard_tabs) \<Longrightarrow>
   ProviderDashboard_ActiveComponent S = DenialRiskScorer"
  by (simp add: ProviderDashboard_ActiveComponent_def find_tab_out)

lemma PatientPortal_body: "page_body (PatientPortal s) = PatientPortal_ActiveComponent s"
  by (simp add: PatientPortal_def)

lemma ProviderDashboard_body: "page_body (ProviderDashboard s) = ProviderDashboard_ActiveComponent s"
  by (simp add: ProviderDashboard_def)

lemma PatientPortal_click_button:
  "i < length PatientPortal_tabs \<Longrightarrow> PatientPortal_click i s = tab_id (PatientPortal_tabs ! i)"
  by (simp add: PatientPortal_click_def PatientPortal_def setActiveTab_def render_button_def)

lemma PatientPortal_click_nothing:
  "\<not> i < length PatientPortal_tabs \<Longrightarrow> PatientPortal_click i s = s"
  by (simp add: PatientPortal_click_def PatientPortal_def)

lemma ProviderDashboard_click_button:
  "i < length ProviderDashboard_tabs \<Longrightarrow>
   ProviderDashboard_click i s = tab_id (ProviderDashboard_tabs ! i)"
  by (simp add: ProviderDashboard_click_def ProviderDashboard_def setActiveTab_def
      render_button_def)

lemma ProviderDashboard_click_nothing:
  "\<not> i < length ProviderDashboard_tabs \<Longrightarrow> ProviderDashboard_click i s = s"
  by (simp add: ProviderDashboard_click_def ProviderDashboard_def)

lemma PatientPortal_click_enumerated:
  assumes "s \<in> set (map tab_id PatientPortal_tabs)"
  shows "PatientPortal_click i s \<in> set (map tab_id PatientPortal_tabs)"
proof (cases "i < length PatientPortal_tabs")
  case True
  then have "PatientPortal_tabs ! i \<in> set PatientPortal_tabs" by (rule nth_mem)
  with True show ?thesis by (simp add: PatientPortal_click_button)
next
  case False
  with assms show ?thesis by (simp add: PatientPortal_click_nothing)
qed

lemma ProviderDashboard_click_enumerated:
  assumes "s \<in> set (map tab_id ProviderDashboard_tabs)"
  shows "ProviderDashboard_click i s \<in> set (map tab_id ProviderDashboard_tabs)"
proof (cases "i < length ProviderDashboard_tabs")
  case True
  then have "ProviderDashboard_tabs ! i \<in> set ProviderDashboard_tabs" by (rule nth_mem)
  with True show ?thesis by (simp add: ProviderDashboard_click_button)
next
  case False
  with assms show ?thesis by (simp add: ProviderDashboard_click_nothing)
qed

lemma foldl_preserves:
  assumes step: "\<And>s i. s \<in> A \<Longrightarrow> f s i \<in> A"
  shows "s \<in> A \<Longrightarrow> foldl f s xs \<in> A"
  by (induction xs arbitrary: s) (simp_all add: step)

text \<open>
  C1. For every tab of a page's tab list, when the selection is that tab's identifier the
  page selects and renders that tab's component, and the component of no tab with another
  identifier; in \<open>PatientPortal\<close> and in \<open>ProviderDashboard\<close>.
\<close>

theorem selection_renders_mapped_component:
  "(t \<in> set PatientPortal_tabs \<longrightarrow>
      PatientPortal_ActiveComponent (tab_id t) = tab_component t \<and>
      page_body (PatientPortal (tab_id t)) = tab_component t \<and>
      (\<forall>u \<in> set PatientPortal_tabs. tab_id u \<noteq> tab_id t \<longrightarrow>
          tab_component u \<noteq> PatientPortal_ActiveComponent (tab_id t))) \<and>
   (t' \<in> set ProviderDashboard_tabs \<longrightarrow>
      ProviderDashboard_ActiveComponent (tab_id t') = tab_component t' \<and>
      page_body (ProviderDashboard (tab_id t')) = tab_component t' \<and>
      (\<forall>u \<in> set ProviderDashboard_tabs. tab_id u \<noteq> tab_id t' \<longrightarrow>
          tab_component u \<noteq> ProviderDashboard_ActiveComponent (tab_id t')))"
proof (intro conjI impI ballI)
  assume t: "t \<in> set PatientPortal_tabs"
  show sel: "PatientPortal_ActiveComponent (tab_id t) = tab_component t"
    using t by (rule PatientPortal_ActiveComponent_tab)
  show "page_body (PatientPortal (tab_id t)) = tab_component t"
    by (simp add: PatientPortal_body sel)
  fix u assume "u \<in> set PatientPortal_tabs" and "tab_id u \<noteq> tab_id t"
  then have "tab_component u \<noteq> tab_component t"
    using distinct_map_other [OF PatientPortal_components_distinct t] by auto
  then show "tab_component u \<noteq> PatientPortal_ActiveComponent (tab_id t)"
    by (simp add: sel)
next
  assume t: "t' \<in> set ProviderDashboard_tabs"
  show sel: "ProviderDashboard_ActiveComponent (tab_id t') = tab_component t'"
    using t by (rule ProviderDashboard_ActiveComponent_tab)
  show "page_body (ProviderDashboard (tab_id t')) = tab_component t'"
    by (simp add: ProviderDashboard_body sel)
  fix u assume "u \<in> set ProviderDashboard_tabs" and "tab_id u \<noteq> tab_id t'"
  then have "tab_component u \<noteq> tab_component t'"
    using distinct_map_other [OF ProviderDashboard_components_distinct t] by auto
  then show "tab_component u \<noteq> ProviderDashboard_ActiveComponent (tab_id t')"
    by (simp add: sel)
qed

theorem selection_renders_mapped_component_witness:
  "\<lparr>tab_id = ''bill'', tab_label = ''Bill Analysis'', tab_component = BillAnalysis\<rparr>
      \<in> set PatientPortal_tabs \<and>
   PatientPortal_ActiveComponent ''bill'' = BillAnalysis \<and>
   page_body (PatientPortal ''bill'') = BillAnalysis \<and>
   CostEstimator \<noteq> PatientPortal_ActiveComponent ''bill'' \<and>
   \<lparr>tab_id = ''coding'', tab_label = ''Coding Recommendations'',
     tab_component = CodingRecommendations\<rparr> \<in> set ProviderDashboard_tabs \<and>
   ProviderDashboard_ActiveComponent ''coding'' = CodingRecommendations \<and>
   page_body (ProviderDashboard ''coding'') = CodingRecommendations \<and>
   DenialRiskScorer \<noteq> ProviderDashboard_ActiveComponent ''coding''"
  using selection_renders_mapped_component
    [of "\<lparr>tab_id = ''bill'', tab_label = ''Bill Analysis'', tab_component = BillAnalysis\<rparr>"
        "\<lparr>tab_id = ''coding'', tab_label = ''Coding Recommendations'',
          tab_component = CodingRecommendations\<rparr>"]
  by (simp add: PatientPortal_tabs_def ProviderDashboard_tabs_def)

text \<open>
  C2. For every identifier that is not the identifier of a tab of the page, the page selects
  its default component: \<open>CostEstimator\<close> in \<open>PatientPortal\<close>, \<open>DenialRiskScorer\<close> in
  \<open>ProviderDashboard\<close>.
\<close>

theorem unknown_selection_falls_back:
  "(S \<notin> set (map tab_id PatientPortal_tabs) \<longrightarrow>
      PatientPortal_ActiveComponent S = CostEstimator \<and>
      page_body (PatientPortal S) = CostEstimator) \<and>
   (S' \<notin> set (map tab_id ProviderDashboard_tabs) \<longrightarrow>
      ProviderDashboard_ActiveComponent S' = DenialRiskScorer \<and>
      page_body (ProviderDashboard S') = DenialRiskScorer)"
  by (simp add: PatientPortal_body ProviderDashboard_body
      PatientPortal_ActiveComponent_unknown ProviderDashboard_ActiveComponent_unknown)

theorem unknown_selection_falls_back_witness:
  "''settings'' \<notin> set (map tab_id PatientPortal_tabs) \<and>
   PatientPortal_ActiveComponent ''settings'' = CostEstimator \<and>
   page_body (PatientPortal ''settings'') = CostEstimator \<and>
   ''estimate'' \<notin> set (map tab_id ProviderDashboard_tabs) \<and>
   ProviderDashboard_ActiveComponent ''estimate'' = DenialRiskScorer \<and>
   page_body (ProviderDashboard ''estimate'') = DenialRiskScorer"
  using unknown_selection_falls_back [of "''settings''" "''estimate''"]
  by (simp add: PatientPortal_tabs_def ProviderDashboard_tabs_def)

text \<open>
  C4. Before any click the selection of \<open>PatientPortal\<close> is the identifier of the one tab
  whose component is \<open>CostEstimator\<close>, and the selection of \<open>ProviderDashboard\<close> is the
  identifier of the one tab whose component is \<open>DenialRiskScorer\<close>; each page then renders
  that component and marks the button of that tab, and no other, as the active one.
\<close>

theorem initial_selection_is_default_tab:
  "PatientPortal_run [] = PatientPortal_initial \<and>
   map tab_id (filter (\<lambda>t. tab_component t = CostEstimator) PatientPortal_tabs)
     = [PatientPortal_initial] \<and>
   page_body (PatientPortal (PatientPortal_run [])) = CostEstimator \<and>
   map button_label (filter (\<lambda>b. button_className b = tab_className True)
       (page_nav (PatientPortal (PatientPortal_run [])))) = [''Cost Estimator''] \<and>
   ProviderDashboard_run [] = ProviderDashboard_initial \<and>
   map tab_id (filter (\<lambda>t. tab_component t = DenialRiskScorer) ProviderDashboard_tabs)
     = [ProviderDashboard_initial] \<and>
   page_body (ProviderDashboard (ProviderDashboard_run [])) = DenialRiskScorer \<and>
   map button_label (filter (\<lambda>b. button_className b = tab_className True)
       (page_nav (ProviderDashboard (ProviderDashboard_run [])))) = [''Denial Risk Scorer'']"
proof -
  have p0: "PatientPortal_run [] = ''estimate''"
    by (simp add: PatientPortal_run_def PatientPortal_initial_def)
  have d0: "ProviderDashboard_run [] = ''denial''"
    by (simp add: ProviderDashboard_run_def ProviderDashboard_initial_def)
  have p1: "map tab_id (filter (\<lambda>t. tab_component t = CostEstimator) PatientPortal_tabs)
      = [''estimate'']"
    by (simp add: PatientPortal_tabs_def)
  have d1: "map tab_id (filter (\<lambda>t. tab_component t = DenialRiskScorer) ProviderDashboard_tabs)
      = [''denial'']"
    by (simp add: ProviderDashboard_tabs_def)
  have p2: "page_body (PatientPortal ''estimate'') = CostEstimator"
    by (simp add: PatientPortal_def PatientPortal_ActiveComponent_def PatientPortal_tabs_def)
  have d2: "page_body (ProviderDashboard ''denial'') = DenialRiskScorer"
    by (simp add: ProviderDashboard_def ProviderDashboard_ActiveComponent_def
        ProviderDashboard_tabs_def)
  have cls: "tab_className a = tab_className True \<longleftrightarrow> a" for a
    by (simp add: tab_className_def)
  have p3: "map button_label (filter (\<lambda>b. button_className b = tab_className True)
       (page_nav (PatientPortal ''estimate''))) = [''Cost Estimator'']"
    by (simp add: PatientPortal_def PatientPortal_tabs_def render_button_def cls)
  have d3: "map button_label (filter (\<lambda>b. button_className b = tab_className True)
       (page_nav (ProviderDashboard ''denial''))) = [''Denial Risk Scorer'']"
    by (simp add: ProviderDashboard_def ProviderDashboard_tabs_def render_button_def cls)
  show ?thesis
    unfolding p0 d0 PatientPortal_initial_def ProviderDashboard_initial_def
    using p1 p2 p3 d1 d2 d3 by (intro conjI) (rule refl | assumption)+
qed

text \<open>
  C6. After every sequence of clicks, starting from the initial selection, the selection of
  each page is the identifier of one of the page's tabs.
\<close>

theorem selection_stays_enumerated:
  "PatientPortal_run clicks \<in> set (map tab_id PatientPortal_tabs) \<and>
   ProviderDashboard_run clicks' \<in> set (map tab_id ProviderDashboard_tabs)"
proof
  have "PatientPortal_initial \<in> set (map tab_id PatientPortal_tabs)"
    by (simp add: PatientPortal_initial_def PatientPortal_tabs_def)
  then show "PatientPortal_run clicks \<in> set (map tab_id PatientPortal_tabs)"
    unfolding PatientPortal_run_def
    by (rule foldl_preserves [rotated]) (rule PatientPortal_click_enumerated)
next
  have "ProviderDashboard_initial \<in> set (map tab_id ProviderDashboard_tabs)"
    by (simp add: ProviderDashboard_initial_def ProviderDashboard_tabs_def)
  then show "ProviderDashboard_run clicks' \<in> set (map tab_id ProviderDashboard_tabs)"
    unfolding ProviderDashboard_run_def
    by (rule foldl_preserves [rotated]) (rule ProviderDashboard_click_enumerated)
qed

text \<open>
  C9. Clicking the button of the tab that is already selected leaves the selection, the
  selected component and the whole rendered page as they were; in both pages.
\<close>

theorem reselecting_active_tab_changes_nothing:
  "(i < length PatientPortal_tabs \<and> activeTab = tab_id (PatientPortal_tabs ! i) \<longrightarrow>
      PatientPortal_click i activeTab = activeTab \<and>
      PatientPortal_ActiveComponent (PatientPortal_click i activeTab)
        = PatientPortal_ActiveComponent activeTab \<and>
      PatientPortal (PatientPortal_click i activeTab) = PatientPortal activeTab) \<and>
   (j < length ProviderDashboard_tabs \<and> activeTab' = tab_id (ProviderDashboard_tabs ! j) \<longrightarrow>
      ProviderDashboard_click j activeTab' = activeTab' \<and>
      ProviderDashboard_ActiveComponent (ProviderDashboard_click j activeTab')
        = ProviderDashboard_ActiveComponent activeTab' \<and>
      ProviderDashboard (ProviderDashboard_click j activeTab') = ProviderDashboard activeTab')"
  by (simp add: PatientPortal_click_button ProviderDashboard_click_button)

theorem reselecting_active_tab_changes_nothing_witness:
  "(2::nat) < length PatientPortal_tabs \<and> ''assistance'' = tab_id (PatientPortal_tabs ! 2) \<and>
   PatientPortal_click 2 ''assistance'' = ''assistance'' \<and>
   PatientPortal_ActiveComponent (PatientPortal_click 2 ''assistance'') = AssistanceFinder \<and>
   (1::nat) < length ProviderDashboard_tabs \<and> ''qa'' = tab_id (ProviderDashboard_tabs ! 1) \<and>
   ProviderDashboard_click 1 ''qa'' = ''qa'' \<and>
   ProviderDashboard_ActiveComponent (ProviderDashboard_click 1 ''qa'') = ClaimQA"
proof -
  have h: "(2::nat) < length PatientPortal_tabs \<and> ''assistance'' = tab_id (PatientPortal_tabs ! 2)"
    by (simp add: PatientPortal_tabs_def)
  have h': "(1::nat) < length ProviderDashboard_tabs \<and> ''qa'' = tab_id (ProviderDashboard_tabs ! 1)"
    by (simp add: ProviderDashboard_tabs_def)
  have a: "PatientPortal_ActiveComponent ''assistance'' = AssistanceFinder"
    by (simp add: PatientPortal_ActiveComponent_def PatientPortal_tabs_def)
  have b: "ProviderDashboard_ActiveComponent ''qa'' = ClaimQA"
    by (simp add: ProviderDashboard_ActiveComponent_def ProviderDashboard_tabs_def)
  show ?thesis
    using reselecting_active_tab_changes_nothing [of 2 "''assistance''" 1 "''qa''"] h h' a b
    by simp
qed

text \<open>
  C10. In each page the component taken when the lookup fails is the component of the tab
  the page starts on: an identifier outside the tab list renders the same child component
  as the initial selection does.
\<close>

theorem fallback_is_initial_component:
  "map tab_component (filter (\<lambda>t. tab_id t = PatientPortal_initial) PatientPortal_tabs)
     = [CostEstimator] \<and>
   (S \<notin> set (map tab_id PatientPortal_tabs) \<longrightarrow>
      PatientPortal_ActiveComponent S = CostEstimator \<and>
      PatientPortal_ActiveComponent S = PatientPortal_ActiveComponent PatientPortal_initial \<and>
      page_body (PatientPortal S) = page_body (PatientPortal PatientPortal_initial)) \<and>
   map tab_component (filter (\<lambda>t. tab_id t = ProviderDashboard_initial) ProviderDashboard_tabs)
     = [DenialRiskScorer] \<and>
   (S' \<notin> set (map tab_id ProviderDashboard_tabs) \<longrightarrow>
      ProviderDashboard_ActiveComponent S' = DenialRiskScorer \<and>
      ProviderDashboard_ActiveComponent S'
        = ProviderDashboard_ActiveComponent ProviderDashboard_initial \<and>
      page_body (ProviderDashboard S') = page_body (ProviderDashboard ProviderDashboard_initial))"
proof -
  have p: "PatientPortal_ActiveComponent PatientPortal_initial = CostEstimator"
    by (simp add: PatientPortal_ActiveComponent_def PatientPortal_initial_def
        PatientPortal_tabs_def)
  have d: "ProviderDashboard_ActiveComponent ProviderDashboard_initial = DenialRiskScorer"
    by (simp add: ProviderDashboard_ActiveComponent_def ProviderDashboard_initial_def
        ProviderDashboard_tabs_def)
  have p1: "map tab_component (filter (\<lambda>t. tab_id t = PatientPortal_initial) PatientPortal_tabs)
     = [CostEstimator]"
    by (simp add: PatientPortal_initial_def PatientPortal_tabs_def)
  have d1: "map tab_component
      (filter (\<lambda>t. tab_id t = ProviderDashboard_initial) ProviderDashboard_tabs)
     = [DenialRiskScorer]"
    by (simp add: ProviderDashboard_initial_def ProviderDashboard_tabs_def)
  show ?thesis
    using p1 d1
    by (simp add: p d PatientPortal_body ProviderDashboard_body
        PatientPortal_ActiveComponent_unknown ProviderDashboard_ActiveComponent_unknown)
qed

theorem fallback_is_initial_component_witness:
  "''profile'' \<notin> set (map tab_id PatientPortal_tabs) \<and>
   PatientPortal_ActiveComponent ''profile'' = PatientPortal_ActiveComponent ''estimate'' \<and>
   page_body (PatientPortal ''profile'') = page_body (PatientPortal ''estimate'') \<and>
   ''risk'' \<notin> set (map tab_id ProviderDashboard_tabs) \<and>
   ProviderDashboard_ActiveComponent ''risk'' = ProviderDashboard_ActiveComponent ''denial'' \<and>
   page_body (ProviderDashboard ''risk'') = page_body (ProviderDashboard ''denial'')"
proof -
  have h: "''profile'' \<notin> set (map tab_id PatientPortal_tabs)"
    by (simp add: PatientPortal_tabs_def)
  have h': "''risk'' \<notin> set (map tab_id ProviderDashboard_tabs)"
    by (simp add: ProviderDashboard_tabs_def)
  show ?thesis
    using fallback_is_initial_component [of "''profile''" "''risk''"] h h'
    unfolding PatientPortal_initial_def ProviderDashboard_initial_def by blast
qed

text \<open>
  The tab bar is not part of that agreement: for an identifier outside the tab list no button
  carries the class name of the active tab, whereas the initial render marks one.
\<close>

lemma unknown_selection_highlights_no_tab:
  assumes "S \<notin> set (map tab_id PatientPortal_tabs)"
  shows "filter (\<lambda>b. button_className b = tab_className True) (page_nav (PatientPortal S)) = []"
proof -
  have "tab_className a = tab_className True \<longleftrightarrow> a" for a
    by (simp add: tab_className_def)
  with assms show ?thesis
    by (auto simp: PatientPortal_def render_button_def filter_empty_conv)
qed

section \<open>Properties of Layout\<close>

lemma startsWith_iff_prefix: "startsWith s searchString \<longleftrightarrow> prefix searchString s"
proof
  assume "startsWith s searchString"
  then have "searchString = take (length searchString) s"
    by (simp add: startsWith_def)
  then show "prefix searchString s"
    by (metis take_is_prefix)
next
  assume "prefix searchString s"
  then obtain zs where "s = searchString @ zs" by (auto simp: prefix_def)
  then show "startsWith s searchString" by (simp add: startsWith_def)
qed

lemma marked_active_link_className: "marked_active (link_className a) \<longleftrightarrow> a"
  by (simp add: marked_active_def link_className_def)

lemma patient_provider_exclusive:
  assumes "startsWith s ''/patient''" and "startsWith s ''/provider''"
  shows False
proof -
  from assms(1) obtain zs where "s = ''/patient'' @ zs"
    by (auto simp: startsWith_iff_prefix prefix_def)
  moreover from assms(2) obtain zs' where "s = ''/provider'' @ zs'"
    by (auto simp: startsWith_iff_prefix prefix_def)
  ultimately show False by simp
qed

text \<open>
  C3. For every location, the Patient Portal link is marked active exactly when
  \<open>''/patient''\<close> is a prefix of the pathname, the Provider Dashboard link exactly when
  \<open>''/provider''\<close> is, and the two links are never both marked active.
\<close>

theorem Layout_marks_prefix_matched_link:
  "(marked_active (patient_link_className (Layout loc children))
      \<longleftrightarrow> prefix ''/patient'' (pathname loc)) \<and>
   (marked_active (provider_link_className (Layout loc children))
      \<longleftrightarrow> prefix ''/provider'' (pathname loc)) \<and>
   \<not> (marked_active (patient_link_className (Layout loc children)) \<and>
      marked_active (provider_link_className (Layout loc children)))"
proof -
  have p: "marked_active (patient_link_className (Layout loc children))
      \<longleftrightarrow> startsWith (pathname loc) ''/patient''"
    by (simp add: Layout_def marked_active_link_className isPatient_def)
  have d: "marked_active (provider_link_className (Layout loc children))
      \<longleftrightarrow> startsWith (pathname loc) ''/provider''"
    by (simp add: Layout_def marked_active_link_className isProvider_def)
  show ?thesis
    unfolding p d using patient_provider_exclusive [of "pathname loc"]
    by (auto simp: startsWith_iff_prefix)
qed



lemma Layout_component_outside_router:
  "Layout_component None children = (Inl NotInRouterContext, None)"
  by (simp add: Layout_component_def useLocation_def)




section \<open>Properties of the route table\<close>

lemma pattern_literal_App:
  "pattern_literal ''/'' = ''/''"
  "pattern_literal ''/patient/*'' = ''/patient''"
  "pattern_literal ''/provider/*'' = ''/provider''"
  by (simp_all add: pattern_literal_def ends_with_star_def)

lemma code_units_App:
  "code_units ''/'' = [47]"
  "code_units ''/patient'' = [47, 112, 97, 116, 105, 101, 110, 116]"
  "code_units ''/provider'' = [47, 112, 114, 111, 118, 105, 100, 101, 114]"
  by (simp_all add: code_units_def)

lemma length_code_units_App:
  "length (code_units ''/'') = 1"
  "length (code_units ''/patient'') = 8"
  "length (code_units ''/provider'') = 9"
  by (simp_all add: code_units_def)

lemma matchPath_root:
  "matchPath ''/'' d \<longleftrightarrow> map toLowerASCII (take 1 d) = [47] \<and> list_all is_slash (drop 1 d)"
  unfolding matchPath_def pattern_literal_App Let_def length_code_units_App
  by (simp add: code_units_App ends_with_star_def toLowerASCII_def)

lemma matchPath_patient:
  "matchPath ''/patient/*'' d \<longleftrightarrow>
     map toLowerASCII (take 8 d) = [47, 112, 97, 116, 105, 101, 110, 116] \<and>
     ((case drop 8 d of [] \<Rightarrow> False | u # us \<Rightarrow> is_slash u \<and> us \<noteq> [] \<and> list_all dot us) \<or>
      list_all is_slash (drop 8 d))"
  unfolding matchPath_def pattern_literal_App Let_def length_code_units_App
  by (simp add: code_units_App ends_with_star_def toLowerASCII_def)

lemma matchPath_provider:
  "matchPath ''/provider/*'' d \<longleftrightarrow>
     map toLowerASCII (take 9 d) = [47, 112, 114, 111, 118, 105, 100, 101, 114] \<and>
     ((case drop 9 d of [] \<Rightarrow> False | u # us \<Rightarrow> is_slash u \<and> us \<noteq> [] \<and> list_all dot us) \<or>
      list_all is_slash (drop 9 d))"
  unfolding matchPath_def pattern_literal_App Let_def length_code_units_App
  by (simp add: code_units_App ends_with_star_def toLowerASCII_def)

lemma matchRoutes_App:
  "matchRoutes App_routes p =
     (let d = decodePath (if p = [] then ''/'' else p)
      in if matchPath ''/'' d
           then Some \<lparr>route_path = ''/'', route_element = Navigate ''/patient''\<rparr>
         else if matchPath ''/patient/*'' d
           then Some \<lparr>route_path = ''/patient/*'', route_element = PatientPortalPage\<rparr>
         else if matchPath ''/provider/*'' d
           then Some \<lparr>route_path = ''/provider/*'', route_element = ProviderDashboardPage\<rparr>
         else None)"
  by (simp add: matchRoutes_def App_routes_def Let_def)

lemma map_take_nth:
  assumes "map f (take n p) = q" and "i < length q"
  shows "f (p ! i) = q ! i" and "i < length p"
proof -
  from assms show len: "i < length p" by auto
  from assms have "i < n" by auto
  with len have "map f (take n p) ! i = f (p ! i)" by simp
  with assms(1) show "f (p ! i) = q ! i" by simp
qed

lemma App_routes_exclusive:
  assumes "r \<in> set App_routes" and "r' \<in> set App_routes"
    and "matchPath (route_path r) d" and "matchPath (route_path r') d"
  shows "r = r'"
proof -
  have second: "toLowerASCII (d ! 1) = 112 \<and> 1 < length d"
    if "matchPath ''/patient/*'' d \<or> matchPath ''/provider/*'' d"
    using that
      map_take_nth [of toLowerASCII 8 d "[47, 112, 97, 116, 105, 101, 110, 116]" 1]
      map_take_nth [of toLowerASCII 9 d "[47, 112, 114, 111, 118, 105, 100, 101, 114]" 1]
    by (auto simp: matchPath_patient matchPath_provider)
  have root: False
    if "matchPath ''/'' d" and "matchPath ''/patient/*'' d \<or> matchPath ''/provider/*'' d"
  proof -
    from that(2) have "toLowerASCII (d ! 1) = 112" and "1 < length d"
      using second by auto
    moreover from that(1) have "list_all is_slash (drop 1 d)"
      by (simp add: matchPath_root)
    ultimately show False
      by (cases d; cases "tl d") (auto simp: is_slash_def toLowerASCII_def)
  qed
  have patient_provider: False if "matchPath ''/patient/*'' d" and "matchPath ''/provider/*'' d"
  proof -
    from that(1) have "toLowerASCII (d ! 2) = 97"
      using map_take_nth [of toLowerASCII 8 d "[47, 112, 97, 116, 105, 101, 110, 116]" 2]
      by (auto simp: matchPath_patient)
    moreover from that(2) have "toLowerASCII (d ! 2) = 114"
      using map_take_nth [of toLowerASCII 9 d "[47, 112, 114, 111, 118, 105, 100, 101, 114]" 2]
      by (auto simp: matchPath_provider)
    ultimately show False by simp
  qed
  from assms show ?thesis
    using root patient_provider
    by (auto simp: App_routes_def)
qed

subsection \<open>The decoded form of a pathname under a section\<close>

lemma those_length: "those xs = Some ys \<Longrightarrow> length ys = length xs"
  by (induction xs arbitrary: ys) (auto split: option.splits)

lemma split_slash_not_Nil: "split_slash s \<noteq> []"
  by (induction s) (auto split: list.splits)

lemma decodeURIComponent_Nil: "decodeURIComponent [] = Some []"
  by (simp add: decodeURIComponent_def)

lemma decodeURIComponent_patient:
  "decodeURIComponent ''patient'' = Some [112, 97, 116, 105, 101, 110, 116]"
  by (simp add: decodeURIComponent_def)

lemma decodeURIComponent_provider:
  "decodeURIComponent ''provider'' = Some [112, 114, 111, 118, 105, 100, 101, 114]"
  by (simp add: decodeURIComponent_def)

lemma decodePath_patient: "decodePath ''/patient'' = [47, 112, 97, 116, 105, 101, 110, 116]"
  by (simp add: decodePath_def decodeURIComponent_Nil decodeURIComponent_patient
      join_slash_def escape_slashes_def)

lemma decodePath_provider:
  "decodePath ''/provider'' = [47, 112, 114, 111, 118, 105, 100, 101, 114]"
  by (simp add: decodePath_def decodeURIComponent_Nil decodeURIComponent_provider
      join_slash_def escape_slashes_def)

lemma decodePath_below_patient:
  "\<exists>x. decodePath (''/patient/'' @ r) = [47, 112, 97, 116, 105, 101, 110, 116] @ 47 # x"
proof (cases "those (map decodeURIComponent (split_slash r))")
  case None
  then show ?thesis
    by (simp add: decodePath_def decodeURIComponent_Nil decodeURIComponent_patient
        code_units_def)
next
  case (Some ds)
  then have "length ds = length (split_slash r)"
    using those_length by fastforce
  then obtain e es where "ds = e # es"
    using split_slash_not_Nil [of r] by (cases ds) auto
  with Some show ?thesis
    by (simp add: decodePath_def decodeURIComponent_Nil decodeURIComponent_patient
        join_slash_def escape_slashes_def)
qed

lemma decodePath_below_provider:
  "\<exists>x. decodePath (''/provider/'' @ r) = [47, 112, 114, 111, 118, 105, 100, 101, 114] @ 47 # x"
proof (cases "those (map decodeURIComponent (split_slash r))")
  case None
  then show ?thesis
    by (simp add: decodePath_def decodeURIComponent_Nil decodeURIComponent_provider
        code_units_def)
next
  case (Some ds)
  then have "length ds = length (split_slash r)"
    using those_length by fastforce
  then obtain e es where "ds = e # es"
    using split_slash_not_Nil [of r] by (cases ds) auto
  with Some show ?thesis
    by (simp add: decodePath_def decodeURIComponent_Nil decodeURIComponent_provider
        join_slash_def escape_slashes_def)
qed

lemma under_sectionE:
  assumes "under_section section p"
  obtains "p = section" | r where "p = section @ ''/'' @ r"
  using assms by (auto simp: under_section_def prefix_def)

lemma slash_or_terminator:
  "list_all is_slash x \<Longrightarrow> \<not> list_ex line_terminator x"
  by (induction x) (auto simp: is_slash_def line_terminator_def)

lemma all_dot_iff: "list_all dot x \<longleftrightarrow> \<not> list_ex line_terminator x"
  by (induction x) (auto simp: dot_def)

lemma splat_rest:
  "((case 47 # x of [] \<Rightarrow> False | u # us \<Rightarrow> is_slash u \<and> us \<noteq> [] \<and> list_all dot us) \<or>
     list_all is_slash (47 # x)) \<longleftrightarrow> \<not> list_ex line_terminator x"
  using slash_or_terminator [of x]
  by (cases x) (auto simp: is_slash_def all_dot_iff)

lemma match_below_patient:
  assumes "d = [47, 112, 97, 116, 105, 101, 110, 116] @ 47 # x"
  shows "matchPath ''/patient/*'' d \<longleftrightarrow> \<not> list_ex line_terminator d"
    and "\<not> matchPath ''/'' d" and "\<not> matchPath ''/provider/*'' d"
  using splat_rest [of x]
  by (simp_all add: assms matchPath_patient matchPath_root matchPath_provider toLowerASCII_def
      is_slash_def line_terminator_def)

lemma match_below_provider:
  assumes "d = [47, 112, 114, 111, 118, 105, 100, 101, 114] @ 47 # x"
  shows "matchPath ''/provider/*'' d \<longleftrightarrow> \<not> list_ex line_terminator d"
    and "\<not> matchPath ''/'' d" and "\<not> matchPath ''/patient/*'' d"
  using splat_rest [of x]
  by (simp_all add: assms matchPath_patient matchPath_root matchPath_provider toLowerASCII_def
      is_slash_def line_terminator_def)

lemma match_at_patient:
  assumes "d = [47, 112, 97, 116, 105, 101, 110, 116]"
  shows "matchPath ''/patient/*'' d" and "\<not> list_ex line_terminator d"
    and "\<not> matchPath ''/'' d" and "\<not> matchPath ''/provider/*'' d"
  by (simp_all add: assms matchPath_patient matchPath_root matchPath_provider toLowerASCII_def
      is_slash_def line_terminator_def)

lemma match_at_provider:
  assumes "d = [47, 112, 114, 111, 118, 105, 100, 101, 114]"
  shows "matchPath ''/provider/*'' d" and "\<not> list_ex line_terminator d"
    and "\<not> matchPath ''/'' d" and "\<not> matchPath ''/patient/*'' d"
  by (simp_all add: assms matchPath_patient matchPath_root matchPath_provider toLowerASCII_def
      is_slash_def line_terminator_def)

lemma App_under_patient:
  assumes "under_section ''/patient'' p"
  shows "App fuel p =
    (if list_ex line_terminator (decodePath p) then NoMatch p
     else Rendered p PatientPortalPage)"
  using assms
proof (cases rule: under_sectionE)
  case 1
  then show ?thesis
    using match_at_patient [OF decodePath_patient]
    by (simp add: matchRoutes_App)
next
  case (2 r)
  then have p: "p = ''/patient/'' @ r" by simp
  obtain x where d: "decodePath p = [47, 112, 97, 116, 105, 101, 110, 116] @ 47 # x"
    using decodePath_below_patient [of r] unfolding p by blast
  have "p \<noteq> []" using p by simp
  then show ?thesis
    using match_below_patient [OF d]
    by (simp add: matchRoutes_App Let_def)
qed

lemma App_under_provider:
  assumes "under_section ''/provider'' p"
  shows "App fuel p =
    (if list_ex line_terminator (decodePath p) then NoMatch p
     else Rendered p ProviderDashboardPage)"
  using assms
proof (cases rule: under_sectionE)
  case 1
  then show ?thesis
    using match_at_provider [OF decodePath_provider]
    by (simp add: matchRoutes_App)
next
  case (2 r)
  then have p: "p = ''/provider/'' @ r" by simp
  obtain x where d: "decodePath p = [47, 112, 114, 111, 118, 105, 100, 101, 114] @ 47 # x"
    using decodePath_below_provider [of r] unfolding p by blast
  have "p \<noteq> []" using p by simp
  then show ?thesis
    using match_below_provider [OF d]
    by (simp add: matchRoutes_App Let_def)
qed

subsection \<open>Routing of the pathnames under a section\<close>

lemma decodePath_line_feed:
  "decodePath ''/patient/%0A'' = [47, 112, 97, 116, 105, 101, 110, 116, 47, 10]"
  by (simp add: decodePath_def decodeURIComponent_def hex_digit_def join_slash_def
      escape_slashes_def)

text \<open>
  The pathname \<open>/patient/%0A\<close> lies under \<open>/patient\<close>, and the router shows no page for it:
  it decodes to \<open>/patient/\<close> followed by a line feed, which the dot of the route's regular
  expression does not match.
\<close>

theorem App_routes_paths_to_pages_counterexample:
  "under_section ''/patient'' ''/patient/%0A'' \<and>
   App 1 ''/patient/%0A'' = NoMatch ''/patient/%0A'' \<and>
   App 1 ''/patient/%0A'' \<noteq> Rendered ''/patient/%0A'' PatientPortalPage"
proof -
  have u: "under_section ''/patient'' ''/patient/%0A''"
    by (simp add: under_section_def)
  have "list_ex line_terminator (decodePath ''/patient/%0A'')"
    by (simp add: decodePath_line_feed line_terminator_def)
  with App_under_patient [OF u, of 1] have "App 1 ''/patient/%0A'' = NoMatch ''/patient/%0A''"
    by simp
  with u show ?thesis by simp
qed

text \<open>
  C5, amended. Every pathname under \<open>/patient\<close> whose percent-decoded form holds no line
  terminator is routed to the PatientPortal page, and every such pathname under \<open>/provider\<close>
  to the ProviderDashboard page, with no redirect; a pathname under either section whose
  decoded form holds a line terminator matches no route. The root path matches the route
  that navigates to \<open>/patient\<close>, so that with fuel for one redirect the router shows the
  PatientPortal page at \<open>/patient\<close>.
\<close>

theorem App_routes_decoded_paths_to_pages:
  "(under_section ''/patient'' p \<longrightarrow>
      App fuel p = (if list_ex line_terminator (decodePath p) then NoMatch p
                    else Rendered p PatientPortalPage)) \<and>
   (under_section ''/provider'' p' \<longrightarrow>
      App fuel p' = (if list_ex line_terminator (decodePath p') then NoMatch p'
                     else Rendered p' ProviderDashboardPage)) \<and>
   map_option route_element (matchRoutes App_routes ''/'') = Some (Navigate ''/patient'') \<and>
   App (Suc fuel) ''/'' = Rendered ''/patient'' PatientPortalPage"
proof (intro conjI impI)
  assume "under_section ''/patient'' p"
  then show "App fuel p = (if list_ex line_terminator (decodePath p) then NoMatch p
                    else Rendered p PatientPortalPage)"
    by (rule App_under_patient)
next
  assume "under_section ''/provider'' p'"
  then show "App fuel p' = (if list_ex line_terminator (decodePath p') then NoMatch p'
                     else Rendered p' ProviderDashboardPage)"
    by (rule App_under_provider)
next
  have d: "decodePath ''/'' = [47]"
    by (simp add: decodePath_def decodeURIComponent_Nil join_slash_def escape_slashes_def)
  have root: "matchPath ''/'' [47]"
    by (simp add: matchPath_root toLowerASCII_def)
  from root show r: "map_option route_element (matchRoutes App_routes ''/'')
      = Some (Navigate ''/patient'')"
    by (simp add: matchRoutes_App d)
  have u: "under_section ''/patient'' ''/patient''"
    by (simp add: under_section_def)
  have "App fuel ''/patient'' = Rendered ''/patient'' PatientPortalPage"
    using App_under_patient [OF u, of fuel] match_at_patient(2) [OF decodePath_patient]
    by (simp only: if_False)
  with root show "App (Suc fuel) ''/'' = Rendered ''/patient'' PatientPortalPage"
    by (simp add: matchRoutes_App d)
qed

theorem App_routes_decoded_paths_to_pages_witness:
  "under_section ''/patient'' ''/patient/bills/42'' \<and>
   App 0 ''/patient/bills/42'' = Rendered ''/patient/bills/42'' PatientPortalPage \<and>
   under_section ''/provider'' ''/provider/a%20b'' \<and>
   App 0 ''/provider/a%20b'' = Rendered ''/provider/a%20b'' ProviderDashboardPage \<and>
   App 1 ''/'' = Rendered ''/patient'' PatientPortalPage"
proof -
  have h: "under_section ''/patient'' ''/patient/bills/42''"
    by (simp add: under_section_def)
  have h': "under_section ''/provider'' ''/provider/a%20b''"
    by (simp add: under_section_def)
  have n: "\<not> list_ex line_terminator (decodePath ''/patient/bills/42'')"
    by (simp add: decodePath_def decodeURIComponent_def hex_digit_def join_slash_def
        escape_slashes_def line_terminator_def)
  have n': "\<not> list_ex line_terminator (decodePath ''/provider/a%20b'')"
    by (simp add: decodePath_def decodeURIComponent_def hex_digit_def join_slash_def
        escape_slashes_def line_terminator_def)
  show ?thesis
    using App_routes_decoded_paths_to_pages [of "''/patient/bills/42''" 0 "''/provider/a%20b''"]
      h h' n n'
    by simp
qed

text \<open>
  C8. There is a pathname that begins with \<open>/patient\<close> without lying under the section
  \<open>/patient\<close>, namely \<open>/patientfoo\<close>, for which \<open>Layout\<close> marks the Patient Portal link active
  although no route of \<open>App\<close> matches it; \<open>/providerfoo\<close> is such a pathname for the
  Provider Dashboard link.
\<close>

theorem Layout_active_where_no_route_matches:
  "(\<exists>p. p = ''/patientfoo'' \<and> \<not> under_section ''/patient'' p \<and>
        marked_active (patient_link_className
          (Layout \<lparr>pathname = p, search = s, hash = h, key = k\<rparr> children)) \<and>
        matchRoutes App_routes p = None \<and> App fuel p = NoMatch p) \<and>
   (\<exists>p. p = ''/providerfoo'' \<and> \<not> under_section ''/provider'' p \<and>
        marked_active (provider_link_className
          (Layout \<lparr>pathname = p, search = s, hash = h, key = k\<rparr> children)) \<and>
        matchRoutes App_routes p = None \<and> App fuel p = NoMatch p)"
proof -
  have da: "decodePath ''/patientfoo'' = [47, 112, 97, 116, 105, 101, 110, 116, 102, 111, 111]"
    by (simp add: decodePath_def decodeURIComponent_def join_slash_def escape_slashes_def)
  have db: "decodePath ''/providerfoo''
      = [47, 112, 114, 111, 118, 105, 100, 101, 114, 102, 111, 111]"
    by (simp add: decodePath_def decodeURIComponent_def join_slash_def escape_slashes_def)
  have a: "matchRoutes App_routes ''/patientfoo'' = None"
    by (simp add: matchRoutes_App da matchPath_root matchPath_patient matchPath_provider
        toLowerASCII_def is_slash_def)
  have b: "matchRoutes App_routes ''/providerfoo'' = None"
    by (simp add: matchRoutes_App db matchPath_root matchPath_patient matchPath_provider
        toLowerASCII_def is_slash_def)
  have c: "marked_active (patient_link_className
      (Layout \<lparr>pathname = ''/patientfoo'', search = s, hash = h, key = k\<rparr> children))"
    by (simp add: Layout_def marked_active_link_className isPatient_def startsWith_def)
  have d: "marked_active (provider_link_className
      (Layout \<lparr>pathname = ''/providerfoo'', search = s, hash = h, key = k\<rparr> children))"
    by (simp add: Layout_def marked_active_link_className isProvider_def startsWith_def)
  have e: "\<not> under_section ''/patient'' ''/patientfoo''"
    "\<not> under_section ''/provider'' ''/providerfoo''"
    by (simp_all add: under_section_def)
  show ?thesis
    using a b c d e by simp
qed

end
